theory Spec2Isabelle
  imports Main "HOL-Library.Char_ord" "HOL-Library.List_Lexorder"
begin

section \<open>Text primitives of the scholarship pipeline\<close>

text \<open>
  Python strings are modelled as \<open>string\<close>; a \<open>char\<close> stands for a code point below 256
  (Latin-1), which covers the non-breaking space \<open>0xA0\<close> that \<open>extract_fields\<close> replaces.
  The character classes below are those of Python 3 on that range: \<open>str.isspace\<close> (also the
  regex class \<open>\s\<close> and what \<open>str.strip\<close> removes), the regex classes \<open>\d\<close> and \<open>\w\<close>, and
  \<open>str.lower\<close>.
\<close>

definition code :: "char \<Rightarrow> nat" where
  "code c = of_char c"

definition is_space :: "char \<Rightarrow> bool" where
  "is_space c = (let n = code c in (9 \<le> n \<and> n \<le> 13) \<or> (28 \<le> n \<and> n \<le> 32) \<or> n = 133 \<or> n = 160)"

definition is_digit :: "char \<Rightarrow> bool" where
  "is_digit c = (let n = code c in 48 \<le> n \<and> n \<le> 57)"

definition is_upper :: "char \<Rightarrow> bool" where
  "is_upper c = (let n = code c in (65 \<le> n \<and> n \<le> 90) \<or> (192 \<le> n \<and> n \<le> 222 \<and> n \<noteq> 215))"

definition is_word :: "char \<Rightarrow> bool" where
  "is_word c = (let n = code c in
     (48 \<le> n \<and> n \<le> 57) \<or> (65 \<le> n \<and> n \<le> 90) \<or> (97 \<le> n \<and> n \<le> 122) \<or> n = 95 \<or>
     n = 170 \<or> n = 178 \<or> n = 179 \<or> n = 181 \<or> n = 185 \<or> n = 186 \<or> (188 \<le> n \<and> n \<le> 190) \<or>
     (192 \<le> n \<and> n \<le> 214) \<or> (216 \<le> n \<and> n \<le> 246) \<or> (248 \<le> n \<and> n \<le> 255))"

definition lower_char :: "char \<Rightarrow> char" where
  "lower_char c = (if is_upper c then char_of (code c + 32) else c)"

definition lower :: "string \<Rightarrow> string" where
  "lower s = map lower_char s"

definition strip :: "string \<Rightarrow> string" where
  "strip s = rev (dropWhile is_space (rev (dropWhile is_space s)))"

definition startswith :: "string \<Rightarrow> string \<Rightarrow> bool" where
  "startswith s p = (take (length p) s = p)"

text \<open>The substring test \<open>sub in s\<close>.\<close>

fun py_in :: "string \<Rightarrow> string \<Rightarrow> bool" where
  "py_in sub [] = (sub = [])"
| "py_in sub (x # xs) = (startswith (x # xs) sub \<or> py_in sub xs)"

text \<open>\<open>sep.join(parts)\<close>.\<close>

fun join :: "string \<Rightarrow> string list \<Rightarrow> string" where
  "join sep [] = []"
| "join sep [p] = p"
| "join sep (p # q # ps) = p @ sep @ join sep (q # ps)"

section \<open>Regular expressions with Python's backtracking semantics\<close>

text \<open>
  The patterns of the source are regular expressions over the constructs below. A matcher state
  is the character before the current position (for \<open>\b\<close> and the lookbehind), the remaining
  input and the groups captured so far. \<open>ms r st\<close> lists every state in which a match of \<open>r\<close>
  from \<open>st\<close> can end, in the order in which a backtracking matcher tries them: the first
  alternative before the second, more repetitions before fewer (greedy). The head of the list is
  the match that \<open>re\<close> reports.
\<close>

datatype rx =
    Chr "char \<Rightarrow> bool"
  | Seq rx rx
  | Alt rx rx
  | Rep nat "nat option" rx
  | Grp nat rx
  | WordB
  | Behind "char \<Rightarrow> bool"

type_synonym mstate = "char option \<times> string \<times> (nat \<times> string) list"

definition remaining :: "mstate \<Rightarrow> nat" where
  "remaining st = length (fst (snd st))"

definition word_opt :: "char option \<Rightarrow> bool" where
  "word_opt p = (case p of None \<Rightarrow> False | Some c \<Rightarrow> is_word c)"

function ms :: "rx \<Rightarrow> mstate \<Rightarrow> mstate list" where
  "ms (Chr P) st =
     (case fst (snd st) of
        [] \<Rightarrow> []
      | x # xs \<Rightarrow> if P x then [(Some x, xs, snd (snd st))] else [])"
| "ms (Seq a b) st =
     concat (map (\<lambda>st'. if remaining st' \<le> remaining st then ms b st' else []) (ms a st))"
| "ms (Alt a b) st = ms a st @ ms b st"
| "ms (Rep m mx a) st =
     (if mx = Some 0 then [st]
      else concat (map (\<lambda>st'. if remaining st' < remaining st
                               then ms (Rep (m - 1) (map_option (\<lambda>k. k - 1) mx) a) st' else [])
                       (ms a st))
           @ (if m = 0 then [st] else []))"
| "ms (Grp n a) st =
     map (\<lambda>st'. (fst st', fst (snd st'),
                  (n, take (remaining st - remaining st') (fst (snd st))) # snd (snd st')))
         (ms a st)"
| "ms WordB st =
     (if word_opt (fst st) \<noteq> word_opt (case fst (snd st) of [] \<Rightarrow> None | x # _ \<Rightarrow> Some x)
      then [st] else [])"
| "ms (Behind P) st = (case fst st of None \<Rightarrow> [] | Some c \<Rightarrow> if P c then [st] else [])"
  by pat_completeness auto
termination
  by (relation "inv_image (less_than <*lex*> less_than) (\<lambda>(r, st). (remaining st, size r))") auto

text \<open>A match object: the text of group 0, the captured groups, and the input after the match.\<close>

record rmatch =
  group0 :: string
  groups :: "(nat \<times> string) list"
  after :: string

definition match_at :: "rx \<Rightarrow> char option \<Rightarrow> string \<Rightarrow> rmatch option" where
  "match_at r p s =
     (case ms r (p, s, []) of
        [] \<Rightarrow> None
      | st # _ \<Rightarrow> Some \<lparr>group0 = take (length s - remaining st) s, groups = snd (snd st),
                          after = fst (snd st)\<rparr>)"

text \<open>\<open>re.search\<close>: the match at the leftmost position that has one.\<close>

fun search_from :: "rx \<Rightarrow> char option \<Rightarrow> string \<Rightarrow> rmatch option" where
  "search_from r p [] = match_at r p []"
| "search_from r p (x # xs) =
     (case match_at r p (x # xs) of
        Some m \<Rightarrow> Some m
      | None \<Rightarrow> search_from r (Some x) xs)"

definition re_search :: "rx \<Rightarrow> string \<Rightarrow> rmatch option" where
  "re_search r s = search_from r None s"

text \<open>\<open>m.group(n)\<close> for a group that took part in the match.\<close>

definition group :: "rmatch \<Rightarrow> nat \<Rightarrow> string" where
  "group m n = (case map_of (groups m) n of None \<Rightarrow> [] | Some g \<Rightarrow> g)"

text \<open>Pattern builders: a literal string, with or without \<open>re.IGNORECASE\<close>, and a choice.\<close>

fun seqs :: "rx list \<Rightarrow> rx" where
  "seqs [] = Rep 0 (Some 0) (Chr (\<lambda>_. False))"
| "seqs [r] = r"
| "seqs (r # rs) = Seq r (seqs rs)"

fun alts :: "rx list \<Rightarrow> rx" where
  "alts [] = Chr (\<lambda>_. False)"
| "alts [r] = r"
| "alts (r # rs) = Alt r (alts rs)"

definition lit :: "string \<Rightarrow> rx" where
  "lit s = seqs (map (\<lambda>c. Chr (\<lambda>x. x = c)) s)"

definition lit_i :: "string \<Rightarrow> rx" where
  "lit_i s = seqs (map (\<lambda>c. Chr (\<lambda>x. lower_char x = lower_char c)) s)"

section \<open>The parsed page\<close>

text \<open>
  The HTML parser is a collaborator of the pipeline. A page is modelled by what the source
  observes of the parsed document: the results of the \<open>select_one\<close> queries, the body, and the
  heading elements in document order, each with its following siblings. A node is observed
  through its tag name (empty for a text node), whether it offers \<open>get_text\<close>, and the text strings
  of its subtree in document order.
\<close>

record node =
  nd_name :: string
  nd_has_get_text :: bool
  nd_strings :: "string list"

record soup =
  sel_h1 :: "node option"
  sel_post_title :: "node option"
  sel_title :: "node option"
  sel_article :: "node option"
  sel_content :: "node option"
  soup_body :: "node option"
  headings :: "(node \<times> node list) list"

text \<open>\<open>el.stripped_strings\<close>: every string stripped, the empty ones dropped.\<close>

definition stripped_strings :: "node \<Rightarrow> string list" where
  "stripped_strings el = filter (\<lambda>s. s \<noteq> []) (map strip (nd_strings el))"

definition extract_text :: "node option \<Rightarrow> string" where
  "extract_text el = (case el of None \<Rightarrow> [] | Some e \<Rightarrow> join '' '' (stripped_strings e))"

text \<open>\<open>a or b\<close> on optional elements: an element that exists is truthy, whatever its text.\<close>

definition or_else :: "'a option \<Rightarrow> 'a option \<Rightarrow> 'a option" where
  "or_else a b = (case a of Some x \<Rightarrow> Some x | None \<Rightarrow> b)"

definition is_heading_name :: "string \<Rightarrow> bool" where
  "is_heading_name nm = (nm \<in> set [''h1'', ''h2'', ''h3'', ''h4'', ''h5'', ''h6''])"

text \<open>The sibling loop of \<open>guess_field_by_heading\<close>: collect text up to the next heading.\<close>

fun collect_siblings :: "node list \<Rightarrow> string list" where
  "collect_siblings [] = []"
| "collect_siblings (sib # sibs) =
     (if nd_name sib \<noteq> [] \<and> is_heading_name (nd_name sib) then []
      else if nd_has_get_text sib then extract_text (Some sib) # collect_siblings sibs
      else collect_siblings sibs)"

fun guess_in_headings :: "(node \<times> node list) list \<Rightarrow> string list \<Rightarrow> string" where
  "guess_in_headings [] heading_texts = []"
| "guess_in_headings ((h, sibs) # hs) heading_texts =
     (let txt = lower (join '' '' (stripped_strings h)) in
      if list_ex (\<lambda>key. py_in key txt) heading_texts
      then strip (join '' '' (collect_siblings sibs))
      else guess_in_headings hs heading_texts)"

definition guess_field_by_heading :: "soup \<Rightarrow> string list \<Rightarrow> string" where
  "guess_field_by_heading sp heading_texts = guess_in_headings (headings sp) heading_texts"

section \<open>Field extraction\<close>

record scholarship =
  title :: string
  url :: string
  offered_by :: string
  level :: string
  type :: string
  amount :: string
  eligibility :: string
  deadline :: string
  summary :: string
  full_content :: string

text \<open>The pattern \<open>(last date|deadline|apply by)\s*:?([^\n\r]+)\<close> under \<open>re.IGNORECASE\<close>.\<close>

definition deadline_rx :: rx where
  "deadline_rx = seqs
     [Grp 1 (alts [lit_i ''last date'', lit_i ''deadline'', lit_i ''apply by'']),
      Rep 0 None (Chr is_space),
      Rep 0 (Some 1) (Chr (\<lambda>c. c = CHR '':'')),
      Grp 2 (Rep 1 None (Chr (\<lambda>c. code c \<noteq> 10 \<and> code c \<noteq> 13)))]"

text \<open>The five level patterns, applied to the lowercase content.\<close>

definition matric_rx :: rx where
  "matric_rx = seqs [WordB, lit ''matric'', WordB]"

definition inter_rx :: rx where
  "inter_rx = Alt (seqs [WordB, lit ''inter'', WordB]) (lit ''intermediate'')"

definition bachelor_rx :: rx where
  "bachelor_rx = Alt (Seq WordB (lit ''bachelor'')) (lit ''undergrad'')"

definition masters_rx :: rx where
  "masters_rx = alts [Seq WordB (lit ''ms''), lit ''m.phil'', lit ''master'']"

definition phd_rx :: rx where
  "phd_rx = Alt (Seq WordB (lit ''phd'')) (lit ''doctoral'')"

definition found :: "rx \<Rightarrow> string \<Rightarrow> bool" where
  "found r s = (re_search r s \<noteq> None)"

definition level_tags :: "string \<Rightarrow> string list" where
  "level_tags text_lower =
     (if found matric_rx text_lower then [''Matric''] else []) @
     (if found inter_rx text_lower then [''Intermediate''] else []) @
     (if found bachelor_rx text_lower then [''Bachelor''] else []) @
     (if found masters_rx text_lower then [''Masters/MPhil''] else []) @
     (if found phd_rx text_lower then [''PhD''] else [])"

definition level_of :: "string \<Rightarrow> string" where
  "level_of text_lower = join '', '' (sort (remdups (level_tags text_lower)))"

definition type_of :: "string \<Rightarrow> string" where
  "type_of text_lower =
     (if py_in ''merit'' text_lower \<and> py_in ''need'' text_lower then ''Merit & Need Based''
      else if py_in ''merit'' text_lower then ''Merit Based''
      else if py_in ''need'' text_lower then ''Need Based''
      else [])"

text \<open>The pattern \<open>(?<=[.!?])\s+\<close> of the summary, and \<open>re.split\<close>.\<close>

definition is_punct :: "char \<Rightarrow> bool" where
  "is_punct c = (c = CHR ''.'' \<or> c = CHR ''!'' \<or> c = CHR ''?'')"

definition sentence_rx :: rx where
  "sentence_rx = Seq (Behind is_punct) (Rep 1 None (Chr is_space))"

text \<open>
  \<open>split_from r p cur s\<close>: \<open>p\<close> is the character before \<open>s\<close>, \<open>cur\<close> the piece collected so far
  (reversed). A match that consumes input closes the piece and the scan resumes after it.
  The patterns split on here never match the empty string; such a match is passed over.
\<close>

function split_from :: "rx \<Rightarrow> char option \<Rightarrow> string \<Rightarrow> string \<Rightarrow> string list" where
  "split_from r p cur [] = [rev cur]"
| "split_from r p cur (x # xs) =
     (case match_at r p (x # xs) of
        None \<Rightarrow> split_from r (Some x) (x # cur) xs
      | Some m \<Rightarrow>
          if length (after m) < length (x # xs)
          then rev cur # split_from r (Some (last (group0 m))) [] (after m)
          else split_from r (Some x) (x # cur) xs)"
  by pat_completeness auto
termination
  by (relation "measure (\<lambda>(r, p, cur, s). length s)") auto

definition re_split :: "rx \<Rightarrow> string \<Rightarrow> string list" where
  "re_split r s = split_from r None [] s"

definition replace_nbsp :: "string \<Rightarrow> string" where
  "replace_nbsp s = map (\<lambda>c. if code c = 160 then CHR '' '' else c) s"

definition content_of :: "soup \<Rightarrow> string" where
  "content_of sp =
     replace_nbsp (extract_text (or_else (sel_article sp) (or_else (sel_content sp) (soup_body sp))))"

definition deadline_keys :: "string list" where
  "deadline_keys = [''deadline'', ''last date'', ''apply by'', ''closing date'']"

definition deadline_of :: "soup \<Rightarrow> string" where
  "deadline_of sp =
     (let d = (case re_search deadline_rx (content_of sp) of
                 None \<Rightarrow> []
               | Some m \<Rightarrow> strip (group m 2))
      in if d = [] then guess_field_by_heading sp deadline_keys else d)"

definition summary_of :: "string \<Rightarrow> string" where
  "summary_of content = strip (join '' '' (take 3 (re_split sentence_rx content)))"

text \<open>
  \<open>extract_fields\<close> on the outcome of the fetch: \<open>None\<close> when the page could not be fetched.
  The area, the application link and the time stamp are not part of this development.
\<close>

definition extract_fields :: "string \<Rightarrow> soup option \<Rightarrow> scholarship option" where
  "extract_fields u page =
     (case page of
        None \<Rightarrow> None
      | Some sp \<Rightarrow>
          Some \<lparr>title = extract_text (or_else (sel_h1 sp) (or_else (sel_post_title sp) (sel_title sp))),
                url = u,
                offered_by = guess_field_by_heading sp
                   [''offered by'', ''organization'', ''provider'', ''sponsored''],
                level = level_of (lower (content_of sp)),
                type = type_of (lower (content_of sp)),
                amount = guess_field_by_heading sp [''amount'', ''coverage'', ''stipend'', ''funding''],
                eligibility = guess_field_by_heading sp
                   [''eligib'', ''criteria'', ''requirements'', ''who can apply''],
                deadline = deadline_of sp,
                summary = summary_of (content_of sp),
                full_content = content_of sp\<rparr>)"

section \<open>Deadline cleaning\<close>

record date =
  year :: nat
  month :: nat
  day :: nat

text \<open>
  The argument of \<open>extract_date\<close> is any Python value; only strings pass the \<open>isinstance\<close> test.
  The result is what the function returns: a \<open>datetime.date\<close>, \<open>None\<close>, or pandas' \<open>NaT\<close>.
\<close>

datatype pyval = PyStr string | PyOther

datatype timestamp = NaT | Timestamp date

datatype date_result = RDate date | RNone | RNaT

datatype lib_error = LibError

text \<open>The library calls made during one run of \<open>extract_date\<close>, in order.\<close>

datatype lib_call = ToDatetime string | FuzzyParse string

text \<open>\<open>ts.date()\<close>: the date of a time stamp; on \<open>NaT\<close> the method returns \<open>NaT\<close>.\<close>

definition ts_date :: "timestamp \<Rightarrow> date_result" where
  "ts_date ts = (case ts of NaT \<Rightarrow> RNaT | Timestamp d \<Rightarrow> RDate d)"

text \<open>
  The pattern
  \<open>(\d{1,2}[-/]\d{1,2}[-/]\d{2,4}|\d{4}[-/]\d{1,2}[-/]\d{1,2})\<close>.
\<close>

definition is_sep :: "char \<Rightarrow> bool" where
  "is_sep c = (c = CHR ''-'' \<or> c = CHR ''/'')"

definition date_rx :: rx where
  "date_rx = Grp 1 (Alt
     (seqs [Rep 1 (Some 2) (Chr is_digit), Chr is_sep, Rep 1 (Some 2) (Chr is_digit), Chr is_sep,
            Rep 2 (Some 4) (Chr is_digit)])
     (seqs [Rep 4 (Some 4) (Chr is_digit), Chr is_sep, Rep 1 (Some 2) (Chr is_digit), Chr is_sep,
            Rep 1 (Some 2) (Chr is_digit)]))"

definition is_na :: "string \<Rightarrow> bool" where
  "is_na text = (let t = lower (strip text) in
     startswith t ''n.a'' \<or> startswith t ''na'' \<or> startswith t ''n/a'')"

text \<open>
  The month-name step: \<open>parser.parse(text, fuzzy=True, ...).date()\<close> inside \<open>try\<close>; an exception
  of the library gives \<open>None\<close>.
\<close>

definition fuzzy_step ::
  "(string \<Rightarrow> lib_error + date) \<Rightarrow> lib_call list \<Rightarrow> string \<Rightarrow> lib_call list \<times> date_result" where
  "fuzzy_step fuzzy_parse calls text =
     (case fuzzy_parse text of
        Inr d \<Rightarrow> (calls @ [FuzzyParse text], RDate d)
      | Inl _ \<Rightarrow> (calls @ [FuzzyParse text], RNone))"

text \<open>
  \<open>extract_date\<close>, with the two library parsers as parameters: \<open>to_datetime\<close> stands for
  \<open>pd.to_datetime(_, errors="coerce", dayfirst=True)\<close>, which returns a time stamp or \<open>NaT\<close>, or
  raises; \<open>fuzzy_parse\<close> for the permissive parse. The function returns the library calls it made
  and its result.
\<close>

definition extract_date ::
  "(string \<Rightarrow> lib_error + timestamp) \<Rightarrow> (string \<Rightarrow> lib_error + date) \<Rightarrow> pyval
     \<Rightarrow> lib_call list \<times> date_result" where
  "extract_date to_datetime fuzzy_parse v =
     (case v of
        PyOther \<Rightarrow> ([], RNone)
      | PyStr text \<Rightarrow>
          if strip text = [] then ([], RNone)
          else if is_na text then ([], RNone)
          else (case re_search date_rx text of
                  None \<Rightarrow> fuzzy_step fuzzy_parse [] text
                | Some m \<Rightarrow>
                    (case to_datetime (group0 m) of
                       Inr ts \<Rightarrow> ([ToDatetime (group0 m)], ts_date ts)
                     | Inl _ \<Rightarrow> fuzzy_step fuzzy_parse [ToDatetime (group0 m)] text)))"

subsection \<open>A day-first numeric parser\<close>

fun split_on :: "(char \<Rightarrow> bool) \<Rightarrow> string \<Rightarrow> string list" where
  "split_on P [] = [[]]"
| "split_on P (x # xs) =
     (if P x then [] # split_on P xs
      else (case split_on P xs of [] \<Rightarrow> [[x]] | f # fs \<Rightarrow> (x # f) # fs))"

definition digits_val :: "string \<Rightarrow> nat" where
  "digits_val s = foldl (\<lambda>a c. 10 * a + (code c - 48)) 0 s"

definition leap :: "nat \<Rightarrow> bool" where
  "leap y = (y mod 4 = 0 \<and> (y mod 100 \<noteq> 0 \<or> y mod 400 = 0))"

definition days_in_month :: "nat \<Rightarrow> nat \<Rightarrow> nat" where
  "days_in_month y m =
     (if m = 2 then (if leap y then 29 else 28)
      else if m \<in> set [4, 6, 9, 11] then 30 else 31)"

definition mk_date :: "nat \<Rightarrow> nat \<Rightarrow> nat \<Rightarrow> date option" where
  "mk_date y m d =
     (if 1 \<le> y \<and> 1 \<le> m \<and> m \<le> 12 \<and> 1 \<le> d \<and> d \<le> days_in_month y m
      then Some \<lparr>year = y, month = m, day = d\<rparr> else None)"

text \<open>
  Modelled from the spec: the numeric parse of the date library is not part of the repository.
  The spec's words are: a numeric date of the \<open>D[-/]M[-/]YYYY\<close> family or the
  \<open>YYYY[-/]M[-/]D\<close> family is parsed with day-before-month precedence. The model reads three
  digit fields, takes a four-digit first field as the year and otherwise the first field as the
  day, and accepts calendar dates only. Years of fewer than four digits, whose century the
  library chooses from the current date, are left out.
\<close>

definition numeric_dayfirst :: "string \<Rightarrow> date option" where
  "numeric_dayfirst s =
     (case split_on is_sep s of
        [a, b, c] \<Rightarrow>
          if a \<noteq> [] \<and> b \<noteq> [] \<and> c \<noteq> [] \<and> list_all is_digit (a @ b @ c) then
            (if length a = 4 then mk_date (digits_val a) (digits_val b) (digits_val c)
             else if length c = 4 then mk_date (digits_val c) (digits_val b) (digits_val a)
             else None)
          else None
      | _ \<Rightarrow> None)"

text \<open>
  Modelled from the spec: \<open>pd.to_datetime\<close> with \<open>errors="coerce"\<close> on top of that parser;
  coercion turns text that is no date into \<open>NaT\<close> instead of raising.
\<close>

definition to_datetime_coerce :: "string \<Rightarrow> lib_error + timestamp" where
  "to_datetime_coerce s =
     Inr (case numeric_dayfirst s of None \<Rightarrow> NaT | Some d \<Rightarrow> Timestamp d)"

section \<open>The bachelor filter\<close>

record cleaned = scholarship +
  clean_deadline :: date_result

text \<open>
  The data-frame part of \<open>main\<close>: the column \<open>clean_deadline\<close> is computed from \<open>deadline\<close> for
  every collected record, then the rows whose \<open>level\<close> contains \<open>Bachelor\<close>, in any case, are
  kept. Nothing is written when no record was collected.
\<close>

definition add_clean ::
  "(string \<Rightarrow> lib_error + timestamp) \<Rightarrow> (string \<Rightarrow> lib_error + date) \<Rightarrow> scholarship \<Rightarrow> cleaned" where
  "add_clean to_datetime fuzzy_parse r =
     scholarship.extend r
       \<lparr>clean_deadline = snd (extract_date to_datetime fuzzy_parse (PyStr (deadline r)))\<rparr>"

definition contains_bachelor :: "string \<Rightarrow> bool" where
  "contains_bachelor lv = found (lit_i ''Bachelor'') lv"

definition bachelors ::
  "(string \<Rightarrow> lib_error + timestamp) \<Rightarrow> (string \<Rightarrow> lib_error + date) \<Rightarrow> scholarship list
     \<Rightarrow> cleaned list option" where
  "bachelors to_datetime fuzzy_parse results =
     (if results = [] then None
      else Some (filter (\<lambda>r. contains_bachelor (level r))
                        (map (add_clean to_datetime fuzzy_parse) results)))"

section \<open>Example pages\<close>

definition text_node :: "string \<Rightarrow> node" where
  "text_node s = \<lparr>nd_name = [], nd_has_get_text = True, nd_strings = [s]\<rparr>"

definition tag :: "string \<Rightarrow> string list \<Rightarrow> node" where
  "tag nm strs = \<lparr>nd_name = nm, nd_has_get_text = True, nd_strings = strs\<rparr>"

definition some_date :: date where
  "some_date = \<lparr>year = 2025, month = 1, day = 31\<rparr>"

text \<open>A page whose \<open>h1\<close> exists but holds no text, while the post title does.\<close>

definition page_empty_h1 :: soup where
  "page_empty_h1 =
     \<lparr>sel_h1 = Some (tag ''h1'' ['' '']),
      sel_post_title = Some (tag ''div'' [''Need Based Award'']),
      sel_title = Some (tag ''title'' [''Scholarships'']),
      sel_article = None, sel_content = None,
      soup_body = Some (tag ''body'' ['' '', ''Need Based Award'', ''For students in need.'']),
      headings = [(tag ''h1'' ['' ''], [tag ''div'' [''Need Based Award'']])]\<rparr>"

text \<open>
  A page whose content has the label \<open>Deadline:\<close> with only a blank before the line break, and a
  heading section that names the date.
\<close>

definition page_blank_deadline :: soup where
  "page_blank_deadline =
     \<lparr>sel_h1 = None, sel_post_title = None, sel_title = None,
      sel_article = Some (tag ''article'' [''Deadline: \<newline>see below'', ''Closing date'', ''30 June'']),
      sel_content = None, soup_body = None,
      headings = [(tag ''h2'' [''Closing date''], [tag ''p'' [''30 June'']])]\<rparr>"

text \<open>The spec's example content for the type field.\<close>

definition page_merit_need :: soup where
  "page_merit_need =
     \<lparr>sel_h1 = None, sel_post_title = None, sel_title = None,
      sel_article = None, sel_content = None,
      soup_body = Some (tag ''body'' [''Merit and need based scholarship for deserving students.'']),
      headings = []\<rparr>"

text \<open>A page whose content names the date after the label \<open>Apply by\<close>, without a colon.\<close>

definition page_no_colon :: soup where
  "page_no_colon =
     \<lparr>sel_h1 = None, sel_post_title = None, sel_title = None,
      sel_article = None, sel_content = None,
      soup_body = Some (tag ''body'' [''Apply by 30 June 2025'']),
      headings = []\<rparr>"

text \<open>
  Spec-side reading of the level rule: the vocabulary in sorted order, each term with its
  pattern.
\<close>

definition level_vocab :: "(string \<times> rx) list" where
  "level_vocab =
     [(''Bachelor'', bachelor_rx), (''Intermediate'', inter_rx), (''Masters/MPhil'', masters_rx),
      (''Matric'', matric_rx), (''PhD'', phd_rx)]"

text \<open>Spec-side reading of the bachelor filter: a case-insensitive substring test.\<close>

definition ci_contains :: "string \<Rightarrow> string \<Rightarrow> bool" where
  "ci_contains sub s = py_in (lower sub) (lower s)"

text \<open>Spec-side reading of the title rule: the first non-empty text of a list.\<close>

fun first_nonempty :: "string list \<Rightarrow> string" where
  "first_nonempty [] = []"
| "first_nonempty (t # ts) = (if t \<noteq> [] then t else first_nonempty ts)"

section \<open>Properties of the deadline cleaning\<close>

text \<open>
  C1. When the numeric pattern is found and the coercing conversion yields no date for the
  matched text (it returns \<open>NaT\<close>), \<open>extract_date\<close> returns \<open>NaT\<close> from the numeric step: the
  permissive parse is not reached, and the result is neither a date nor \<open>None\<close>.
\<close>

theorem extract_date_coerced_nat:
  assumes "strip text \<noteq> []" and "\<not> is_na text"
    and "re_search date_rx text = Some m"
    and "to_datetime (group0 m) = Inr NaT"
  shows "extract_date to_datetime fuzzy_parse (PyStr text) = ([ToDatetime (group0 m)], RNaT)"
  using assms by (simp add: extract_date_def ts_date_def)

theorem extract_date_coerced_nat_witness:
  "extract_date to_datetime_coerce (\<lambda>_. Inr some_date) (PyStr ''99-99-9999'')
     = ([ToDatetime ''99-99-9999''], RNaT)"
proof -
  have a: "strip ''99-99-9999'' \<noteq> []" by code_simp
  have b: "\<not> is_na ''99-99-9999''" by code_simp
  have c: "re_search date_rx ''99-99-9999''
             = Some \<lparr>group0 = ''99-99-9999'', groups = [(1, ''99-99-9999'')], after = []\<rparr>"
    by code_simp
  have d: "to_datetime_coerce ''99-99-9999'' = Inr NaT" by code_simp
  show ?thesis
    using extract_date_coerced_nat [OF a b c, of to_datetime_coerce "\<lambda>_. Inr some_date"] d
    by simp
qed

text \<open>
  C2. \<open>extract_date\<close> maps \<open>15-02-2024\<close> to the date 2024-02-15, reading the day first, and maps
  \<open>2024-02-15\<close> to the same date; in both cases the whole input is the matched text handed to
  the day-first conversion.
\<close>

theorem extract_date_numeric_examples:
  "extract_date to_datetime_coerce fuzzy_parse (PyStr ''15-02-2024'')
     = ([ToDatetime ''15-02-2024''], RDate \<lparr>year = 2024, month = 2, day = 15\<rparr>)
   \<and> extract_date to_datetime_coerce fuzzy_parse (PyStr ''2024-02-15'')
     = ([ToDatetime ''2024-02-15''], RDate \<lparr>year = 2024, month = 2, day = 15\<rparr>)"
  by code_simp

text \<open>
  C3. On an input that is not a string, or is empty or blank, or whose trimmed lowercase text
  starts with \<open>n.a\<close>, \<open>na\<close> or \<open>n/a\<close>, \<open>extract_date\<close> returns \<open>None\<close> and calls neither library
  parser.
\<close>

theorem extract_date_unparseable_inputs:
  assumes "case v of PyOther \<Rightarrow> True | PyStr text \<Rightarrow> strip text = [] \<or> is_na text"
  shows "extract_date to_datetime fuzzy_parse v = ([], RNone)"
  using assms by (cases v) (auto simp: extract_date_def)

theorem extract_date_unparseable_inputs_witness:
  "extract_date to_datetime_coerce (\<lambda>_. Inr some_date) (PyStr '' N/A 15-02-2024'') = ([], RNone)
   \<and> extract_date to_datetime_coerce (\<lambda>_. Inr some_date) (PyStr ''   '') = ([], RNone)
   \<and> extract_date to_datetime_coerce (\<lambda>_. Inr some_date) PyOther = ([], RNone)"
proof -
  have a: "case PyStr '' N/A 15-02-2024'' of PyOther \<Rightarrow> True
           | PyStr text \<Rightarrow> strip text = [] \<or> is_na text"
    by code_simp
  have b: "case PyStr ''   '' of PyOther \<Rightarrow> True | PyStr text \<Rightarrow> strip text = [] \<or> is_na text"
    by code_simp
  have c: "case PyOther of PyOther \<Rightarrow> True | PyStr text \<Rightarrow> strip text = [] \<or> is_na text"
    by simp
  show ?thesis
    using extract_date_unparseable_inputs [OF a] extract_date_unparseable_inputs [OF b]
      extract_date_unparseable_inputs [OF c]
    by simp
qed

section \<open>Properties of the field extraction\<close>

text \<open>
  C5. The type field is \<open>Merit & Need Based\<close> when both \<open>merit\<close> and \<open>need\<close> occur in the
  lowercase content, \<open>Merit Based\<close> when only \<open>merit\<close> occurs, \<open>Need Based\<close> when only \<open>need\<close>
  occurs, and empty when neither occurs; the four values differ from one another.
\<close>

theorem type_four_outcomes:
  assumes "extract_fields u (Some sp) = Some r"
  shows "(py_in ''merit'' (lower (full_content r)) \<and> py_in ''need'' (lower (full_content r))
            \<longrightarrow> type r = ''Merit & Need Based'')
       \<and> (py_in ''merit'' (lower (full_content r)) \<and> \<not> py_in ''need'' (lower (full_content r))
            \<longrightarrow> type r = ''Merit Based'')
       \<and> (\<not> py_in ''merit'' (lower (full_content r)) \<and> py_in ''need'' (lower (full_content r))
            \<longrightarrow> type r = ''Need Based'')
       \<and> (\<not> py_in ''merit'' (lower (full_content r)) \<and> \<not> py_in ''need'' (lower (full_content r))
            \<longrightarrow> type r = [])
       \<and> distinct [''Merit & Need Based'', ''Merit Based'', ''Need Based'', []]"
proof -
  from assms have "type r = type_of (lower (content_of sp))" and "full_content r = content_of sp"
    by (auto simp: extract_fields_def)
  then show ?thesis
    by (simp add: type_of_def)
qed

theorem type_four_outcomes_witness:
  "map_option full_content (extract_fields ''u'' (Some page_merit_need))
     = Some ''Merit and need based scholarship for deserving students.''
   \<and> map_option type (extract_fields ''u'' (Some page_merit_need)) = Some ''Merit & Need Based''"
proof -
  obtain r where r: "extract_fields ''u'' (Some page_merit_need) = Some r"
    by (simp add: extract_fields_def)
  have "content_of page_merit_need = ''Merit and need based scholarship for deserving students.''"
    by code_simp
  with r have c: "full_content r = ''Merit and need based scholarship for deserving students.''"
    by (auto simp: extract_fields_def)
  have m: "py_in ''merit'' (lower ''Merit and need based scholarship for deserving students.'')"
    by code_simp
  have n: "py_in ''need'' (lower ''Merit and need based scholarship for deserving students.'')"
    by code_simp
  from type_four_outcomes [OF r] c m n have "type r = ''Merit & Need Based''"
    by simp
  with r c show ?thesis by simp
qed

text \<open>
  C6, as the claim states it, fails: on a page whose \<open>h1\<close> exists and has no text the title is
  empty, although the post-title element has text.
\<close>

theorem title_first_nonempty_counterexample:
  "map_option title (extract_fields ''u'' (Some page_empty_h1)) = Some []
   \<and> first_nonempty [extract_text (sel_h1 page_empty_h1),
                      extract_text (sel_post_title page_empty_h1),
                      extract_text (sel_title page_empty_h1)] = ''Need Based Award''"
  by code_simp

text \<open>
  C6, amended. The title is the text of the first element that exists among the \<open>h1\<close>, the
  post-title element and the document title, in that order, and is empty when none exists; a
  later element supplies the title whenever every earlier one is absent.
\<close>

theorem title_first_existing:
  assumes "extract_fields u (Some sp) = Some r"
  shows "title r =
           (case sel_h1 sp of
              Some h \<Rightarrow> extract_text (Some h)
            | None \<Rightarrow>
                (case sel_post_title sp of
                   Some p \<Rightarrow> extract_text (Some p)
                 | None \<Rightarrow>
                     (case sel_title sp of
                        Some t \<Rightarrow> extract_text (Some t)
                      | None \<Rightarrow> [])))"
  using assms
  by (auto simp: extract_fields_def or_else_def extract_text_def split: option.splits)

theorem title_first_existing_witness:
  "map_option title (extract_fields ''u'' (Some (page_empty_h1\<lparr>sel_h1 := None\<rparr>)))
     = Some ''Need Based Award''"
proof -
  obtain r where r: "extract_fields ''u'' (Some (page_empty_h1\<lparr>sel_h1 := None\<rparr>)) = Some r"
    by (simp add: extract_fields_def)
  have "sel_h1 (page_empty_h1\<lparr>sel_h1 := None\<rparr>) = None" by simp
  moreover have "sel_post_title (page_empty_h1\<lparr>sel_h1 := None\<rparr>)
                   = Some (tag ''div'' [''Need Based Award''])"
    by (simp add: page_empty_h1_def)
  moreover have "extract_text (Some (tag ''div'' [''Need Based Award''])) = ''Need Based Award''"
    by code_simp
  ultimately have "title r = ''Need Based Award''"
    using title_first_existing [OF r] by simp
  with r show ?thesis by simp
qed

text \<open>
  C7, as the claim states it, fails twice. On the first page the label pattern matches
  (\<open>Deadline:\<close> followed by a blank before the line break), yet the deadline is the result of
  the heading search. On the second page no colon occurs in the content, yet the deadline is
  the text after the label.
\<close>

theorem deadline_label_counterexample:
  "re_search deadline_rx (content_of page_blank_deadline) \<noteq> None
   \<and> guess_field_by_heading page_blank_deadline deadline_keys = ''30 June''
   \<and> map_option deadline (extract_fields ''u'' (Some page_blank_deadline)) = Some ''30 June''
   \<and> CHR '':'' \<notin> set (content_of page_no_colon)
   \<and> map_option deadline (extract_fields ''u'' (Some page_no_colon)) = Some ''30 June 2025''"
  by code_simp

text \<open>
  C7, amended. The deadline is the trimmed text captured after the first case-insensitive
  occurrence of a label word (\<open>last date\<close>, \<open>deadline\<close>, \<open>apply by\<close>), optional whitespace and an
  optional colon, whenever the pattern matches and that text is not blank; when the pattern
  finds no match, or the captured text is blank, the deadline is the result of the heading
  search for the keywords deadline, last date, apply by, closing date.
\<close>

theorem deadline_label_or_heading:
  assumes "extract_fields u (Some sp) = Some r"
  shows "deadline r =
           (case re_search deadline_rx (full_content r) of
              None \<Rightarrow> guess_field_by_heading sp [''deadline'', ''last date'', ''apply by'', ''closing date'']
            | Some m \<Rightarrow>
                if strip (group m 2) = []
                then guess_field_by_heading sp [''deadline'', ''last date'', ''apply by'', ''closing date'']
                else strip (group m 2))"
  using assms
  by (auto simp: extract_fields_def deadline_of_def deadline_keys_def Let_def split: option.splits)

theorem deadline_label_or_heading_witness:
  "map_option deadline (extract_fields ''u'' (Some page_no_colon)) = Some ''30 June 2025''"
proof -
  obtain r where r: "extract_fields ''u'' (Some page_no_colon) = Some r"
    by (simp add: extract_fields_def)
  have "content_of page_no_colon = ''Apply by 30 June 2025''"
    by code_simp
  with r have c: "full_content r = ''Apply by 30 June 2025''"
    by (auto simp: extract_fields_def)
  have m: "re_search deadline_rx ''Apply by 30 June 2025''
             = Some \<lparr>group0 = ''Apply by 30 June 2025'',
                      groups = [(2, ''30 June 2025''), (1, ''Apply by'')], after = []\<rparr>"
    by code_simp
  have s: "strip ''30 June 2025'' = ''30 June 2025''"
    by code_simp
  from deadline_label_or_heading [OF r] c m s have "deadline r = ''30 June 2025''"
    by (simp add: group_def)
  with r show ?thesis by simp
qed

text \<open>
  C10. When the label pattern matches but the text it captures is blank, the deadline is the
  result of the heading search: the fallback depends on the trimmed text being empty, not on
  the match failing.
\<close>

theorem deadline_blank_capture_falls_back:
  assumes "extract_fields u (Some sp) = Some r"
    and "re_search deadline_rx (full_content r) = Some m"
    and "strip (group m 2) = []"
  shows "deadline r = guess_field_by_heading sp [''deadline'', ''last date'', ''apply by'', ''closing date'']"
  using assms
  by (auto simp: extract_fields_def deadline_of_def deadline_keys_def Let_def split: option.splits)

theorem deadline_blank_capture_falls_back_witness:
  "map_option deadline (extract_fields ''u'' (Some page_blank_deadline)) = Some ''30 June''"
proof -
  obtain r where r: "extract_fields ''u'' (Some page_blank_deadline) = Some r"
    by (simp add: extract_fields_def)
  have "content_of page_blank_deadline = ''Deadline: \<newline>see below Closing date 30 June''"
    by code_simp
  with r have c: "full_content r = ''Deadline: \<newline>see below Closing date 30 June''"
    by (auto simp: extract_fields_def)
  have m: "re_search deadline_rx ''Deadline: \<newline>see below Closing date 30 June''
             = Some \<lparr>group0 = ''Deadline: '', groups = [(2, '' ''), (1, ''Deadline'')],
                      after = ''\<newline>see below Closing date 30 June''\<rparr>"
    by code_simp
  have s: "strip (group \<lparr>group0 = ''Deadline: '', groups = [(2, '' ''), (1, ''Deadline'')],
                         after = ''\<newline>see below Closing date 30 June''\<rparr> 2) = []"
    by code_simp
  have g: "guess_field_by_heading page_blank_deadline
             [''deadline'', ''last date'', ''apply by'', ''closing date''] = ''30 June''"
    by code_simp
  from deadline_blank_capture_falls_back [OF r] c m s g have "deadline r = ''30 June''"
    by simp
  with r show ?thesis by simp
qed

end
